theory Spec2Isabelle
  imports Main "HOL-Library.Word"
begin

unbundle bit_operations_syntax

section \<open>Constants of the system headers\<close>

text \<open>
  The values the Linux headers give to the names the sources use
  (\<^verbatim>\<open>linux/if.h\<close>, \<^verbatim>\<open>linux/if_tun.h\<close>, \<^verbatim>\<open>sys/socket.h\<close>, \<^verbatim>\<open>net/ethernet.h\<close>).
\<close>

type_synonym byte = "8 word"

definition IFNAMSIZ :: nat where
  "IFNAMSIZ = 16"

definition IFF_TAP :: "16 word" where
  "IFF_TAP = 0x0002"

definition IFF_NO_PI :: "16 word" where
  "IFF_NO_PI = 0x1000"

definition AF_INET :: "16 word" where
  "AF_INET = 2"

definition SOCK_DGRAM :: int where
  "SOCK_DGRAM = 2"

definition ETHER_MAX_LEN :: nat where
  "ETHER_MAX_LEN = 1518"

section \<open>Data of the port bridge\<close>

text \<open>\<^verbatim>\<open>struct ifreq\<close>, reduced to the two members \<^verbatim>\<open>tap_alloc\<close> touches. A C string is
  modelled by its characters before the terminating NUL.\<close>

record ifreq =
  ifr_name :: string
  ifr_flags :: "16 word"

text \<open>\<^verbatim>\<open>struct sockaddr_in\<close>: the port and the address are kept as the values the structure
  holds in memory, that is in network byte order.\<close>

record sockaddr_in =
  sin_family :: "16 word"
  sin_port :: "16 word"
  sin_addr :: "32 word"

text \<open>\<^verbatim>\<open>struct vport_t\<close> of vport.c.\<close>

record vport_t =
  tapfd :: int
  vport_sockfd :: int
  vswitch_addr :: sockaddr_in

text \<open>What the process writes to its two output streams.\<close>

datatype message =
    Fail_tap_alloc
  | Fail_socket
  | Fail_inet_pton
  | Init_banner string string int
  | Sendto_size_mismatch int int
  | Write_size_mismatch int int
  | Sent_to_VSwitch "byte list" "byte list" "16 word" int
  | Forward_to_TAP "byte list" "byte list" "16 word" int

text \<open>The observable actions of the process, in program order: the system calls it issues
  with their arguments, the lines it prints, and the abort of a failed \<^verbatim>\<open>assert\<close>.\<close>

datatype event =
    Sys_open string
  | Sys_ioctl_TUNSETIFF int ifreq
  | Sys_close int
  | Sys_socket "16 word" int int
  | Sys_read int nat
  | Sys_sendto int "byte list" sockaddr_in
  | Sys_recvfrom int nat
  | Sys_write int "byte list"
  | Stderr message
  | Stdout message
  | Assert_abort

text \<open>A function either returns to its caller or ends the process with an exit status.\<close>

datatype 'a outcome = Exit int | Return 'a

section \<open>The environment of the setup code\<close>

text \<open>
  The answers of the kernel to the setup calls: the value \<^verbatim>\<open>open\<close> returns, the value the
  \<^verbatim>\<open>TUNSETIFF\<close> request returns together with the interface name the kernel stores into
  the request when it succeeds, and the value \<^verbatim>\<open>socket\<close> returns.
\<close>

record sys_env =
  open_ret :: int
  ioctl_ret :: int
  ioctl_name :: string
  socket_ret :: int

text \<open>\<^verbatim>\<open>strncpy(dst, src, n)\<close> seen on string contents: at most \<open>n\<close> characters are copied.\<close>

definition strncpy :: "string \<Rightarrow> nat \<Rightarrow> string" where
  "strncpy src n = take n src"

text \<open>The \<^verbatim>\<open>TUNSETIFF\<close> request: a negative return leaves the request as it was, otherwise
  the kernel has written the name of the interface into it.\<close>

definition ioctl_TUNSETIFF :: "sys_env \<Rightarrow> ifreq \<Rightarrow> int \<times> ifreq" where
  "ioctl_TUNSETIFF env ifr =
     (if ioctl_ret env < 0 then (ioctl_ret env, ifr)
      else (ioctl_ret env, ifr\<lparr>ifr_name := ioctl_name env\<rparr>))"

text \<open>\<^verbatim>\<open>inet_pton\<close> of the C library, over a parser \<open>pton\<close> of dotted IPv4 text that the
  development takes as a parameter: 1 and the address stored on success, 0 and the
  destination untouched when the text does not parse, -1 for another address family.\<close>

definition inet_pton ::
  "(string \<Rightarrow> 32 word option) \<Rightarrow> 16 word \<Rightarrow> string \<Rightarrow> 32 word \<Rightarrow> int \<times> 32 word" where
  "inet_pton pton af src dst =
     (if af \<noteq> AF_INET then (- 1, dst)
      else case pton src of None \<Rightarrow> (0, dst) | Some a \<Rightarrow> (1, a))"

text \<open>\<^verbatim>\<open>htons\<close> on a little-endian host: the two bytes of the 16-bit value change places.\<close>

definition htons :: "16 word \<Rightarrow> 16 word" where
  "htons x = push_bit 8 x OR drop_bit 8 x"

section \<open>tap\_utils.c\<close>

text \<open>
  \<^verbatim>\<open>int tap_alloc(char *dev)\<close>. The result is the returned value, the contents of the
  caller's buffer \<^verbatim>\<open>dev\<close> afterwards, and the system calls issued.
\<close>

definition tap_alloc :: "sys_env \<Rightarrow> string \<Rightarrow> int \<times> string \<times> event list" where
  "tap_alloc env dev =
     (let fd = open_ret env;
          ev_open = [Sys_open ''/dev/net/tun'']
      in if fd < 0 then (fd, dev, ev_open)
         else
           let ifr0 = \<lparr>ifr_name = [], ifr_flags = 0\<rparr>;
               ifr1 = ifr0\<lparr>ifr_flags := IFF_TAP OR IFF_NO_PI\<rparr>;
               ifr2 = (if dev \<noteq> [] then ifr1\<lparr>ifr_name := strncpy dev IFNAMSIZ\<rparr> else ifr1);
               (err, ifr3) = ioctl_TUNSETIFF env ifr2;
               ev_ioctl = ev_open @ [Sys_ioctl_TUNSETIFF fd ifr2]
           in if err < 0 then (err, dev, ev_ioctl @ [Sys_close fd])
              else (fd, ifr_name ifr3, ev_ioctl))"

section \<open>sys\_utils.h\<close>

text \<open>\<^verbatim>\<open>ERROR_PRINT_THEN_EXIT\<close>: the message goes to the error stream and the process exits
  with status 1. The events are those issued before the macro is reached.\<close>

definition ERROR_PRINT_THEN_EXIT :: "event list \<Rightarrow> message \<Rightarrow> 'a outcome \<times> event list" where
  "ERROR_PRINT_THEN_EXIT evs msg = (Exit 1, evs @ [Stderr msg])"

section \<open>vport.c: setup\<close>

text \<open>
  \<^verbatim>\<open>void vport_init(struct vport_t *vport, const char *server_ip_str, int server_port)\<close>.
  The conversion of the \<^verbatim>\<open>int\<close> port to the \<^verbatim>\<open>uint16_t\<close> argument of \<^verbatim>\<open>htons\<close> keeps
  the low 16 bits, which is what \<open>word_of_int\<close> does.
\<close>

definition vport_init ::
  "sys_env \<Rightarrow> (string \<Rightarrow> 32 word option) \<Rightarrow> string \<Rightarrow> int \<Rightarrow> vport_t outcome \<times> event list" where
  "vport_init env pton server_ip_str server_port =
     (let (tap_fd, ifname, ev1) = tap_alloc env ''tapyuan''
      in if tap_fd < 0 then ERROR_PRINT_THEN_EXIT ev1 Fail_tap_alloc
         else
           let sockfd = socket_ret env;
               ev2 = ev1 @ [Sys_socket AF_INET SOCK_DGRAM 0]
           in if sockfd < 0 then ERROR_PRINT_THEN_EXIT ev2 Fail_socket
              else
                let addr0 = \<lparr>sin_family = 0, sin_port = 0, sin_addr = 0\<rparr>;
                    addr1 = addr0\<lparr>sin_family := AF_INET\<rparr>;
                    addr2 = addr1\<lparr>sin_port := htons (word_of_int server_port)\<rparr>;
                    (rc, a) = inet_pton pton AF_INET server_ip_str (sin_addr addr2)
                in if rc \<noteq> 1 then ERROR_PRINT_THEN_EXIT ev2 Fail_inet_pton
                   else
                     (Return \<lparr>tapfd = tap_fd, vport_sockfd = sockfd,
                              vswitch_addr = addr2\<lparr>sin_addr := a\<rparr>\<rparr>,
                      ev2 @ [Stdout (Init_banner ifname server_ip_str server_port)]))"

section \<open>The environment of the two pumps\<close>

text \<open>
  Each pass through a pump's loop makes one blocking input call and, when it forwards, one
  output call. An element of the input sequence of a pump holds what the kernel answers
  to these two calls in that pass: the frame or datagram that arrives (\<open>None\<close> when the
  input call fails with -1) and the value the output call returns.
\<close>

record up_in =
  tap_frame :: "byte list option"
  sendto_ret :: int

record down_in =
  datagram :: "(byte list \<times> sockaddr_in) option"
  write_ret :: int

text \<open>\<^verbatim>\<open>read(fd, buf, count)\<close>: on failure -1 and an untouched buffer; otherwise at most
  \<open>count\<close> bytes of the frame are stored at the start of the buffer and counted.\<close>

definition read_c :: "byte list option \<Rightarrow> byte list \<Rightarrow> nat \<Rightarrow> int \<times> byte list" where
  "read_c src buf count =
     (case src of
        None \<Rightarrow> (- 1, buf)
      | Some frame \<Rightarrow>
          let got = take count frame
          in (int (length got), got @ drop (length got) buf))"

text \<open>\<^verbatim>\<open>recvfrom(fd, buf, count, 0, src_addr, addrlen)\<close>: as \<^verbatim>\<open>read\<close> for the bytes (what
  exceeds \<open>count\<close> is discarded with the datagram), and the address of the sender is stored
  in the object \<^verbatim>\<open>src_addr\<close> points to. A failed call stores nothing.\<close>

definition recvfrom_c ::
  "(byte list \<times> sockaddr_in) option \<Rightarrow> byte list \<Rightarrow> nat \<Rightarrow> sockaddr_in
     \<Rightarrow> int \<times> byte list \<times> sockaddr_in" where
  "recvfrom_c src buf count src_addr =
     (case src of
        None \<Rightarrow> (- 1, buf, src_addr)
      | Some (dgram, sender) \<Rightarrow>
          let got = take count dgram
          in (int (length got), got @ drop (length got) buf, sender))"

text \<open>\<^verbatim>\<open>assert(c)\<close>: execution goes on when the condition holds, or when the program was
  compiled with \<^verbatim>\<open>NDEBUG\<close> (the build command of the README does not define it).\<close>

definition assert_c :: "bool \<Rightarrow> bool \<Rightarrow> bool" where
  "assert_c ndebug c = (ndebug \<or> c)"

text \<open>The members of \<^verbatim>\<open>struct ether_header\<close> at the start of the buffer; the type is
  the value \<^verbatim>\<open>ntohs(hdr->ether_type)\<close>, the two bytes read most significant first.\<close>

definition ether_dhost :: "byte list \<Rightarrow> byte list" where
  "ether_dhost buf = take 6 buf"

definition ether_shost :: "byte list \<Rightarrow> byte list" where
  "ether_shost buf = take 6 (drop 6 buf)"

definition ether_type :: "byte list \<Rightarrow> 16 word" where
  "ether_type buf =
     (case take 2 (drop 12 buf) of
        [hi, lo] \<Rightarrow> push_bit 8 (ucast hi) OR ucast lo
      | _ \<Rightarrow> 0)"

datatype status = Running | Aborted

section \<open>vport.c: the uplink pump\<close>

text \<open>One pass through the loop of \<^verbatim>\<open>forward_ether_data_to_vswitch\<close>: the buffer
  \<^verbatim>\<open>ether_data\<close> goes in and comes out, \<^verbatim>\<open>sizeof(ether_data)\<close> is its length.\<close>

definition forward_to_vswitch_iter ::
  "bool \<Rightarrow> vport_t \<Rightarrow> byte list \<Rightarrow> up_in \<Rightarrow> status \<times> byte list \<times> event list" where
  "forward_to_vswitch_iter ndebug vport ether_data inp =
     (let (ether_datasz, buf) = read_c (tap_frame inp) ether_data (length ether_data);
          ev_read = [Sys_read (tapfd vport) (length ether_data)]
      in if ether_datasz > 0 then
           if \<not> assert_c ndebug (ether_datasz \<ge> 14) then (Aborted, buf, ev_read @ [Assert_abort])
           else
             let sendsz = sendto_ret inp;
                 ev_send = [Sys_sendto (vport_sockfd vport) (take (nat ether_datasz) buf)
                              (vswitch_addr vport)];
                 ev_mismatch =
                   (if sendsz \<noteq> ether_datasz
                    then [Stderr (Sendto_size_mismatch ether_datasz sendsz)] else []);
                 ev_log = [Stdout (Sent_to_VSwitch (ether_dhost buf) (ether_shost buf)
                             (ether_type buf) ether_datasz)]
             in (Running, buf, ev_read @ ev_send @ ev_mismatch @ ev_log)
         else (Running, buf, ev_read))"

text \<open>The loop \<^verbatim>\<open>while (true)\<close> never ends by itself: it is run on the inputs of its first
  passes. \<open>Running\<close> says that the pump is still in its loop after them.\<close>

fun forward_to_vswitch_loop ::
  "bool \<Rightarrow> vport_t \<Rightarrow> byte list \<Rightarrow> up_in list \<Rightarrow> status \<times> event list" where
  "forward_to_vswitch_loop ndebug vport buf [] = (Running, [])"
| "forward_to_vswitch_loop ndebug vport buf (inp # inps) =
     (case forward_to_vswitch_iter ndebug vport buf inp of
        (Aborted, buf', evs) \<Rightarrow> (Aborted, evs)
      | (Running, buf', evs) \<Rightarrow>
          (let (st, evs') = forward_to_vswitch_loop ndebug vport buf' inps
           in (st, evs @ evs')))"

text \<open>The function itself: the buffer is an array of \<^verbatim>\<open>ETHER_MAX_LEN\<close> bytes on the stack,
  whose contents at entry are whatever the stack holds.\<close>

definition forward_ether_data_to_vswitch ::
  "bool \<Rightarrow> vport_t \<Rightarrow> (nat \<Rightarrow> byte) \<Rightarrow> up_in list \<Rightarrow> status \<times> event list" where
  "forward_ether_data_to_vswitch ndebug vport stack inps =
     forward_to_vswitch_loop ndebug vport (map stack [0..<ETHER_MAX_LEN]) inps"

section \<open>vport.c: the downlink pump\<close>

text \<open>One pass through the loop of \<^verbatim>\<open>forward_ether_data_to_tap\<close>. The call of
  \<^verbatim>\<open>recvfrom\<close> is given \<^verbatim>\<open>&vport->vswitch_addr\<close> as the place for the sender's address, so
  the structure comes out with that member as the call left it.\<close>

definition forward_to_tap_iter ::
  "bool \<Rightarrow> vport_t \<Rightarrow> byte list \<Rightarrow> down_in \<Rightarrow> status \<times> vport_t \<times> byte list \<times> event list" where
  "forward_to_tap_iter ndebug vport ether_data inp =
     (let (ether_datasz, buf, addr) =
            recvfrom_c (datagram inp) ether_data (length ether_data) (vswitch_addr vport);
          vport' = vport\<lparr>vswitch_addr := addr\<rparr>;
          ev_recv = [Sys_recvfrom (vport_sockfd vport) (length ether_data)]
      in if ether_datasz > 0 then
           if \<not> assert_c ndebug (ether_datasz \<ge> 14)
           then (Aborted, vport', buf, ev_recv @ [Assert_abort])
           else
             let sendsz = write_ret inp;
                 ev_write = [Sys_write (tapfd vport') (take (nat ether_datasz) buf)];
                 ev_mismatch =
                   (if sendsz \<noteq> ether_datasz
                    then [Stderr (Write_size_mismatch ether_datasz sendsz)] else []);
                 ev_log = [Stdout (Forward_to_TAP (ether_dhost buf) (ether_shost buf)
                             (ether_type buf) ether_datasz)]
             in (Running, vport', buf, ev_recv @ ev_write @ ev_mismatch @ ev_log)
         else (Running, vport', buf, ev_recv))"

fun forward_to_tap_loop ::
  "bool \<Rightarrow> vport_t \<Rightarrow> byte list \<Rightarrow> down_in list \<Rightarrow> status \<times> vport_t \<times> event list" where
  "forward_to_tap_loop ndebug vport buf [] = (Running, vport, [])"
| "forward_to_tap_loop ndebug vport buf (inp # inps) =
     (case forward_to_tap_iter ndebug vport buf inp of
        (Aborted, vport', buf', evs) \<Rightarrow> (Aborted, vport', evs)
      | (Running, vport', buf', evs) \<Rightarrow>
          (let (st, vport'', evs') = forward_to_tap_loop ndebug vport' buf' inps
           in (st, vport'', evs @ evs')))"

definition forward_ether_data_to_tap ::
  "bool \<Rightarrow> vport_t \<Rightarrow> (nat \<Rightarrow> byte) \<Rightarrow> down_in list \<Rightarrow> status \<times> vport_t \<times> event list" where
  "forward_ether_data_to_tap ndebug vport stack inps =
     forward_to_tap_loop ndebug vport (map stack [0..<ETHER_MAX_LEN]) inps"

section \<open>vport.c: the two threads on one structure\<close>

text \<open>
  \<^verbatim>\<open>main\<close> starts both pumps on the same \<^verbatim>\<open>struct vport_t\<close>. A schedule lists whole
  passes of the two loops in the order in which they run; each pass finds the structure
  as the pass before left it, and a failed assertion in either thread ends the process.
\<close>

datatype pass = Up up_in | Down down_in

fun vport_threads ::
  "bool \<Rightarrow> vport_t \<Rightarrow> byte list \<Rightarrow> byte list \<Rightarrow> pass list \<Rightarrow> status \<times> vport_t \<times> event list" where
  "vport_threads ndebug vport ubuf dbuf [] = (Running, vport, [])"
| "vport_threads ndebug vport ubuf dbuf (Up inp # ps) =
     (case forward_to_vswitch_iter ndebug vport ubuf inp of
        (Aborted, ubuf', evs) \<Rightarrow> (Aborted, vport, evs)
      | (Running, ubuf', evs) \<Rightarrow>
          (let (st, vport', evs') = vport_threads ndebug vport ubuf' dbuf ps
           in (st, vport', evs @ evs')))"
| "vport_threads ndebug vport ubuf dbuf (Down inp # ps) =
     (case forward_to_tap_iter ndebug vport dbuf inp of
        (Aborted, vport', dbuf', evs) \<Rightarrow> (Aborted, vport', evs)
      | (Running, vport', dbuf', evs) \<Rightarrow>
          (let (st, vport'', evs') = vport_threads ndebug vport' ubuf dbuf' ps
           in (st, vport'', evs @ evs')))"

text \<open>Both threads from their start, each with its own buffer on its own stack.\<close>

definition vport_pumps ::
  "bool \<Rightarrow> vport_t \<Rightarrow> (nat \<Rightarrow> byte) \<Rightarrow> (nat \<Rightarrow> byte) \<Rightarrow> pass list
     \<Rightarrow> status \<times> vport_t \<times> event list" where
  "vport_pumps ndebug vport ustack dstack ps =
     vport_threads ndebug vport
       (map ustack [0..<ETHER_MAX_LEN]) (map dstack [0..<ETHER_MAX_LEN]) ps"

text \<open>The datagrams handed to \<^verbatim>\<open>sendto\<close> with their destinations, and the frames handed to
  \<^verbatim>\<open>write\<close>, read off a sequence of events.\<close>

fun sent :: "event list \<Rightarrow> (byte list \<times> sockaddr_in) list" where
  "sent [] = []"
| "sent (Sys_sendto fd d a # es) = (d, a) # sent es"
| "sent (e # es) = sent es"

fun written :: "event list \<Rightarrow> byte list list" where
  "written [] = []"
| "written (Sys_write fd d # es) = d # written es"
| "written (e # es) = written es"

section \<open>The switch forwarding engine\<close>

text \<open>
  The switch (\<^verbatim>\<open>vswitch.py\<close> in the README) is not among the sources at hand. Its
  definitions below follow the specification's description of the engine.
\<close>

type_synonym mac_address = "byte list"

text \<open>Modelled from the spec: the port identity, "a transport address (the unique
  combination identifying a UDP peer: IP + port)".\<close>

type_synonym port_identity = "32 word \<times> 16 word"

text \<open>Modelled from the spec: the MAC table entry with its port and the time it was last
  seen (the MAC is the key of the table), and the state of the switch: the port registry
  and the learning table, "at most one entry per MAC address".\<close>

record mac_entry =
  port :: port_identity
  last_seen :: nat

record switch =
  registry :: "port_identity list"
  mac_table :: "mac_address \<rightharpoonup> mac_entry"

text \<open>Modelled from the spec: what the engine does with a frame, a datagram to a port or
  the log line of a rejected frame.\<close>

datatype switch_action = Transmit port_identity "byte list" | Log_undersized nat

text \<open>Modelled from the spec: the learning table's \<open>learn(mac, port)\<close>, missing from the
  sources, "idempotent upsert; always succeeds; overwrites any prior port for that mac and
  refreshes its timestamp".\<close>

definition learn ::
  "(mac_address \<rightharpoonup> mac_entry) \<Rightarrow> nat \<Rightarrow> mac_address \<Rightarrow> port_identity
     \<Rightarrow> (mac_address \<rightharpoonup> mac_entry)" where
  "learn tbl now m p = tbl(m \<mapsto> \<lparr>port = p, last_seen = now\<rparr>)"

text \<open>Modelled from the spec: the learning table's \<open>lookup(mac)\<close>, missing from the sources,
  which "returns the currently known port for a unicast MAC, or unknown if never learned
  or if evicted by age"; the idle interval is a parameter.\<close>

definition lookup ::
  "(mac_address \<rightharpoonup> mac_entry) \<Rightarrow> nat \<Rightarrow> nat \<Rightarrow> mac_address \<Rightarrow> port_identity option" where
  "lookup tbl idle now m =
     (case tbl m of
        None \<Rightarrow> None
      | Some e \<Rightarrow> if idle < now - last_seen e then None else Some (port e))"

text \<open>Modelled from the spec: the port registry's \<open>register(address)\<close>, missing from the
  sources, which "records the address as a known port if not already present".\<close>

definition register :: "port_identity list \<Rightarrow> port_identity \<Rightarrow> port_identity list" where
  "register ps a = (if a \<in> set ps then ps else ps @ [a])"

text \<open>Modelled from the spec: the classes of MAC addresses, "broadcast (ff:ff:ff:ff:ff:ff),
  multicast (low bit of first octet set)".\<close>

definition is_broadcast :: "mac_address \<Rightarrow> bool" where
  "is_broadcast m = (m = [0xff, 0xff, 0xff, 0xff, 0xff, 0xff])"

definition is_multicast :: "mac_address \<Rightarrow> bool" where
  "is_multicast m = (case m of [] \<Rightarrow> False | b # _ \<Rightarrow> bit b 0)"

text \<open>Modelled from the spec: the forwarding engine, missing from the sources, "invoked
  once per received frame, parameterized by (frame, source address)": reject a frame
  below the header size; parse the destination and source MAC "from the fixed header
  offsets"; register the source address and learn the source MAC; then flood "to every
  port in the Port Registry except source address" when the destination is broadcast,
  multicast or unknown, else transmit "to exactly the one learned port; if that port
  equals source address, drop silently".\<close>

definition switch_forward ::
  "nat \<Rightarrow> nat \<Rightarrow> switch \<Rightarrow> byte list \<Rightarrow> port_identity \<Rightarrow> switch \<times> switch_action list" where
  "switch_forward idle now sw frame source_address =
     (if length frame < 14 then (sw, [Log_undersized (length frame)])
      else
        let dst_mac = take 6 frame;
            src_mac = take 6 (drop 6 frame);
            sw' = \<lparr>registry = register (registry sw) source_address,
                   mac_table = learn (mac_table sw) now src_mac source_address\<rparr>
        in if is_broadcast dst_mac \<or> is_multicast dst_mac
           then (sw', map (\<lambda>p. Transmit p frame)
                        (filter (\<lambda>p. p \<noteq> source_address) (registry sw')))
           else
             (case lookup (mac_table sw') idle now dst_mac of
                None \<Rightarrow> (sw', map (\<lambda>p. Transmit p frame)
                                (filter (\<lambda>p. p \<noteq> source_address) (registry sw')))
              | Some p \<Rightarrow> if p = source_address then (sw', []) else (sw', [Transmit p frame])))"

text \<open>The ports a list of actions of the engine transmits to.\<close>

fun transmitted_to :: "switch_action list \<Rightarrow> port_identity list" where
  "transmitted_to [] = []"
| "transmitted_to (Transmit p f # as) = p # transmitted_to as"
| "transmitted_to (a # as) = transmitted_to as"

section \<open>Facts about one pass of a pump\<close>

lemma take_min_length: "take (min (length f) n) f = take n f"
  by (simp add: min_def)

lemma read_c_length:
  "length (snd (read_c src buf (length buf))) = length buf"
  by (cases src) (simp_all add: read_c_def Let_def)

lemma recvfrom_c_length:
  "length (fst (snd (recvfrom_c src buf (length buf) a))) = length buf"
  by (cases src) (auto simp add: recvfrom_c_def Let_def)

lemma up_iter_read_fails:
  assumes "tap_frame ui = None"
  shows "forward_to_vswitch_iter nd vp buf ui = (Running, buf, [Sys_read (tapfd vp) (length buf)])"
  using assms by (simp add: forward_to_vswitch_iter_def read_c_def)

lemma up_iter_forwards:
  assumes "tap_frame ui = Some f" and "got = take (length buf) f" and "got \<noteq> []"
    and "nd \<or> 14 \<le> length got"
  shows "forward_to_vswitch_iter nd vp buf ui =
           (Running, got @ drop (length got) buf,
            [Sys_read (tapfd vp) (length buf),
             Sys_sendto (vport_sockfd vp) got (vswitch_addr vp)]
            @ (if sendto_ret ui \<noteq> int (length got)
               then [Stderr (Sendto_size_mismatch (int (length got)) (sendto_ret ui))] else [])
            @ [Stdout (Sent_to_VSwitch (ether_dhost (got @ drop (length got) buf))
                         (ether_shost (got @ drop (length got) buf))
                         (ether_type (got @ drop (length got) buf)) (int (length got)))])"
  using assms
  by (auto simp add: forward_to_vswitch_iter_def read_c_def assert_c_def Let_def take_min_length)

lemma up_iter_aborts:
  assumes "tap_frame ui = Some f" and "got = take (length buf) f" and "got \<noteq> []"
    and "\<not> nd" and "length got < 14"
  shows "forward_to_vswitch_iter nd vp buf ui =
           (Aborted, got @ drop (length got) buf,
            [Sys_read (tapfd vp) (length buf), Assert_abort])"
  using assms
  by (auto simp add: forward_to_vswitch_iter_def read_c_def assert_c_def Let_def take_min_length)

lemma up_iter_length:
  "length (fst (snd (forward_to_vswitch_iter nd vp buf ui))) = length buf"
  using read_c_length [of "tap_frame ui" buf]
  by (cases "read_c (tap_frame ui) buf (length buf)")
     (simp add: forward_to_vswitch_iter_def Let_def)

lemma up_iter_sent_bound:
  "\<forall>x \<in> set (sent (snd (snd (forward_to_vswitch_iter nd vp buf ui)))).
     length (fst x) \<le> length buf"
  by (cases "tap_frame ui")
     (simp_all add: forward_to_vswitch_iter_def read_c_def Let_def)

lemma down_iter_recv_fails:
  assumes "datagram di = None"
  shows "forward_to_tap_iter nd vp buf di =
           (Running, vp, buf, [Sys_recvfrom (vport_sockfd vp) (length buf)])"
  using assms by (simp add: forward_to_tap_iter_def recvfrom_c_def)

lemma down_iter_forwards:
  assumes "datagram di = Some (f, a)" and "got = take (length buf) f" and "got \<noteq> []"
    and "nd \<or> 14 \<le> length got"
  shows "forward_to_tap_iter nd vp buf di =
           (Running, vp\<lparr>vswitch_addr := a\<rparr>, got @ drop (length got) buf,
            [Sys_recvfrom (vport_sockfd vp) (length buf),
             Sys_write (tapfd vp) got]
            @ (if write_ret di \<noteq> int (length got)
               then [Stderr (Write_size_mismatch (int (length got)) (write_ret di))] else [])
            @ [Stdout (Forward_to_TAP (ether_dhost (got @ drop (length got) buf))
                         (ether_shost (got @ drop (length got) buf))
                         (ether_type (got @ drop (length got) buf)) (int (length got)))])"
  using assms
  by (auto simp add: forward_to_tap_iter_def recvfrom_c_def assert_c_def Let_def take_min_length)

lemma down_iter_aborts:
  assumes "datagram di = Some (f, a)" and "got = take (length buf) f" and "got \<noteq> []"
    and "\<not> nd" and "length got < 14"
  shows "forward_to_tap_iter nd vp buf di =
           (Aborted, vp\<lparr>vswitch_addr := a\<rparr>, got @ drop (length got) buf,
            [Sys_recvfrom (vport_sockfd vp) (length buf), Assert_abort])"
  using assms
  by (auto simp add: forward_to_tap_iter_def recvfrom_c_def assert_c_def Let_def take_min_length)

lemma down_iter_stores_sender:
  assumes "datagram di = Some (f, a)"
  shows "vswitch_addr (fst (snd (forward_to_tap_iter nd vp buf di))) = a"
  using assms
  by (simp add: forward_to_tap_iter_def recvfrom_c_def Let_def)

lemma down_iter_length:
  "length (fst (snd (snd (forward_to_tap_iter nd vp buf di)))) = length buf"
  using recvfrom_c_length [of "datagram di" buf "vswitch_addr vp"]
  by (cases "recvfrom_c (datagram di) buf (length buf) (vswitch_addr vp)")
     (simp add: forward_to_tap_iter_def Let_def)

lemma down_iter_written_bound:
  "\<forall>d \<in> set (written (snd (snd (snd (forward_to_tap_iter nd vp buf di))))).
     length d \<le> length buf"
  by (cases "datagram di")
     (auto simp add: forward_to_tap_iter_def recvfrom_c_def Let_def split: prod.splits)

lemma sent_append: "sent (xs @ ys) = sent xs @ sent ys"
  by (induction xs rule: sent.induct) simp_all

lemma written_append: "written (xs @ ys) = written xs @ written ys"
  by (induction xs rule: written.induct) simp_all

lemma up_loop_sent_bound:
  "\<forall>x \<in> set (sent (snd (forward_to_vswitch_loop nd vp buf ups))). length (fst x) \<le> length buf"
proof (induction ups arbitrary: buf)
  case Nil
  show ?case by simp
next
  case (Cons ui ups)
  obtain st buf' evs where it: "forward_to_vswitch_iter nd vp buf ui = (st, buf', evs)"
    by (cases "forward_to_vswitch_iter nd vp buf ui") auto
  have len: "length buf' = length buf"
    using up_iter_length [of nd vp buf ui] it by simp
  have here: "\<forall>x \<in> set (sent evs). length (fst x) \<le> length buf"
    using up_iter_sent_bound [of nd vp buf ui] it by simp
  show ?case
  proof (cases st)
    case Aborted
    with it here show ?thesis by simp
  next
    case Running
    have rest: "\<forall>x \<in> set (sent (snd (forward_to_vswitch_loop nd vp buf' ups))).
                  length (fst x) \<le> length buf"
      using Cons.IH [of buf'] len by simp
    from it Running here rest show ?thesis
      by (auto simp add: sent_append split: prod.splits)
  qed
qed

lemma down_loop_written_bound:
  "\<forall>d \<in> set (written (snd (snd (forward_to_tap_loop nd vp buf downs)))). length d \<le> length buf"
proof (induction downs arbitrary: vp buf)
  case Nil
  show ?case by simp
next
  case (Cons di downs)
  obtain st vp' buf' evs where it: "forward_to_tap_iter nd vp buf di = (st, vp', buf', evs)"
    by (cases "forward_to_tap_iter nd vp buf di") auto
  have len: "length buf' = length buf"
    using down_iter_length [of nd vp buf di] it by simp
  have here: "\<forall>d \<in> set (written evs). length d \<le> length buf"
    using down_iter_written_bound [of nd vp buf di] it by simp
  show ?case
  proof (cases st)
    case Aborted
    with it here show ?thesis by simp
  next
    case Running
    have rest: "\<forall>d \<in> set (written (snd (snd (forward_to_tap_loop nd vp' buf' downs)))).
                  length d \<le> length buf"
      using Cons.IH [of vp' buf'] len by simp
    from it Running here rest show ?thesis
      by (auto simp add: written_append split: prod.splits)
  qed
qed

section \<open>Facts about the loops\<close>

text \<open>A pass that leaves the pump running is followed by the loop on the remaining
  inputs; a run that is still in its loop after some inputs continues on further inputs
  from a buffer of the same size, its events so far unchanged.\<close>

lemma up_loop_Cons:
  assumes "forward_to_vswitch_iter nd vp buf ui = (Running, buf', evs)"
  shows "forward_to_vswitch_loop nd vp buf (ui # ups) =
           (fst (forward_to_vswitch_loop nd vp buf' ups),
            evs @ snd (forward_to_vswitch_loop nd vp buf' ups))"
  using assms by (simp add: split_beta)

lemma down_loop_Cons:
  assumes "forward_to_tap_iter nd vp buf di = (Running, vp', buf', evs)"
  shows "forward_to_tap_loop nd vp buf (di # downs) =
           (fst (forward_to_tap_loop nd vp' buf' downs),
            fst (snd (forward_to_tap_loop nd vp' buf' downs)),
            evs @ snd (snd (forward_to_tap_loop nd vp' buf' downs)))"
  using assms by (simp add: split_beta)

lemma up_loop_append:
  assumes "fst (forward_to_vswitch_loop nd vp buf pre) = Running"
  shows "\<exists>buf'. length buf' = length buf \<and>
           (\<forall>post. forward_to_vswitch_loop nd vp buf (pre @ post) =
              (fst (forward_to_vswitch_loop nd vp buf' post),
               snd (forward_to_vswitch_loop nd vp buf pre)
               @ snd (forward_to_vswitch_loop nd vp buf' post)))"
  using assms
proof (induction pre arbitrary: buf)
  case Nil
  show ?case by (rule exI [of _ buf]) simp
next
  case (Cons ui pre)
  obtain st b1 evs where it: "forward_to_vswitch_iter nd vp buf ui = (st, b1, evs)"
    by (cases "forward_to_vswitch_iter nd vp buf ui") auto
  have st: "st = Running"
    using Cons.prems it by (cases st) simp_all
  have len: "length b1 = length buf"
    using up_iter_length [of nd vp buf ui] it by simp
  note step = up_loop_Cons [OF it [unfolded st]]
  have run: "fst (forward_to_vswitch_loop nd vp b1 pre) = Running"
    using Cons.prems step [of pre] by simp
  from Cons.IH [OF run] obtain buf' where b: "length buf' = length b1"
    and eq: "\<And>post. forward_to_vswitch_loop nd vp b1 (pre @ post) =
              (fst (forward_to_vswitch_loop nd vp buf' post),
               snd (forward_to_vswitch_loop nd vp b1 pre)
               @ snd (forward_to_vswitch_loop nd vp buf' post))"
    by blast
  show ?case
  proof (intro exI [of _ buf'] conjI allI)
    show "length buf' = length buf" using b len by simp
  next
    fix post
    show "forward_to_vswitch_loop nd vp buf ((ui # pre) @ post) =
            (fst (forward_to_vswitch_loop nd vp buf' post),
             snd (forward_to_vswitch_loop nd vp buf (ui # pre))
             @ snd (forward_to_vswitch_loop nd vp buf' post))"
      using step [of "pre @ post"] step [of pre] eq [of post] by simp
  qed
qed

lemma down_loop_append:
  assumes "fst (forward_to_tap_loop nd vp buf pre) = Running"
  shows "\<exists>vp' buf'. length buf' = length buf \<and>
           (\<forall>post. forward_to_tap_loop nd vp buf (pre @ post) =
              (fst (forward_to_tap_loop nd vp' buf' post),
               fst (snd (forward_to_tap_loop nd vp' buf' post)),
               snd (snd (forward_to_tap_loop nd vp buf pre))
               @ snd (snd (forward_to_tap_loop nd vp' buf' post))))"
  using assms
proof (induction pre arbitrary: vp buf)
  case Nil
  show ?case by (rule exI [of _ vp], rule exI [of _ buf]) simp
next
  case (Cons di pre)
  obtain st v1 b1 evs where it: "forward_to_tap_iter nd vp buf di = (st, v1, b1, evs)"
    by (cases "forward_to_tap_iter nd vp buf di") auto
  have st: "st = Running"
    using Cons.prems it by (cases st) simp_all
  have len: "length b1 = length buf"
    using down_iter_length [of nd vp buf di] it by simp
  note step = down_loop_Cons [OF it [unfolded st]]
  have run: "fst (forward_to_tap_loop nd v1 b1 pre) = Running"
    using Cons.prems step [of pre] by simp
  from Cons.IH [OF run] obtain vp' buf' where b: "length buf' = length b1"
    and eq: "\<And>post. forward_to_tap_loop nd v1 b1 (pre @ post) =
              (fst (forward_to_tap_loop nd vp' buf' post),
               fst (snd (forward_to_tap_loop nd vp' buf' post)),
               snd (snd (forward_to_tap_loop nd v1 b1 pre))
               @ snd (snd (forward_to_tap_loop nd vp' buf' post)))"
    by blast
  show ?case
  proof (intro exI [of _ vp'] exI [of _ buf'] conjI allI)
    show "length buf' = length buf" using b len by simp
  next
    fix post
    show "forward_to_tap_loop nd vp buf ((di # pre) @ post) =
            (fst (forward_to_tap_loop nd vp' buf' post),
             fst (snd (forward_to_tap_loop nd vp' buf' post)),
             snd (snd (forward_to_tap_loop nd vp buf (di # pre)))
             @ snd (snd (forward_to_tap_loop nd vp' buf' post)))"
      using step [of "pre @ post"] step [of pre] eq [of post] by simp
  qed
qed

lemma up_iter_valid_frame:
  assumes "length buf = ETHER_MAX_LEN" and "14 \<le> length f" and "length f \<le> 1518"
    and "tap_frame ui = Some f"
  shows "\<exists>buf' evs. forward_to_vswitch_iter nd vp buf ui = (Running, buf', evs)
           \<and> sent evs = [(f, vswitch_addr vp)]"
proof -
  have got: "f = take (length buf) f" "f \<noteq> []" "nd \<or> 14 \<le> length f"
    using assms by (auto simp add: ETHER_MAX_LEN_def)
  show ?thesis
    using up_iter_forwards [OF assms(4) got, of vp] by simp
qed

lemma down_iter_valid_frame:
  assumes "length buf = ETHER_MAX_LEN" and "14 \<le> length f" and "length f \<le> 1518"
    and "datagram di = Some (f, a)"
  shows "\<exists>vp' buf' evs. forward_to_tap_iter nd vp buf di = (Running, vp', buf', evs)
           \<and> written evs = [f]"
proof -
  have got: "f = take (length buf) f" "f \<noteq> []" "nd \<or> 14 \<le> length f"
    using assms by (auto simp add: ETHER_MAX_LEN_def)
  show ?thesis
    using down_iter_forwards [OF assms(4) got, of vp] by simp
qed

text \<open>When every input is a frame of valid size, what a pump forwards is the sequence of
  these frames.\<close>

lemma up_loop_all_valid:
  assumes "length buf = ETHER_MAX_LEN"
    and "\<forall>i \<in> set ups. \<exists>f. tap_frame i = Some f \<and> 14 \<le> length f \<and> length f \<le> 1518"
  shows "fst (forward_to_vswitch_loop nd vp buf ups) = Running
       \<and> sent (snd (forward_to_vswitch_loop nd vp buf ups)) =
           map (\<lambda>i. (the (tap_frame i), vswitch_addr vp)) ups"
  using assms
proof (induction ups arbitrary: buf)
  case Nil
  show ?case by simp
next
  case (Cons ui ups)
  from Cons.prems(2) obtain f where f: "tap_frame ui = Some f" "14 \<le> length f" "length f \<le> 1518"
    by auto
  from up_iter_valid_frame [OF Cons.prems(1) f(2) f(3) f(1), of nd vp]
  obtain b2 evs where it: "forward_to_vswitch_iter nd vp buf ui = (Running, b2, evs)"
    and s: "sent evs = [(f, vswitch_addr vp)]"
    by blast
  have len: "length b2 = ETHER_MAX_LEN"
    using up_iter_length [of nd vp buf ui] it Cons.prems(1) by simp
  have rest: "\<forall>i \<in> set ups. \<exists>f. tap_frame i = Some f \<and> 14 \<le> length f \<and> length f \<le> 1518"
    using Cons.prems(2) by simp
  show ?case
    using Cons.IH [OF len rest] up_loop_Cons [OF it, of ups] s f(1)
    by (simp add: sent_append)
qed

lemma down_loop_all_valid:
  assumes "length buf = ETHER_MAX_LEN"
    and "\<forall>i \<in> set downs. \<exists>f a. datagram i = Some (f, a) \<and> 14 \<le> length f \<and> length f \<le> 1518"
  shows "fst (forward_to_tap_loop nd vp buf downs) = Running
       \<and> written (snd (snd (forward_to_tap_loop nd vp buf downs))) =
           map (\<lambda>i. fst (the (datagram i))) downs"
  using assms
proof (induction downs arbitrary: vp buf)
  case Nil
  show ?case by simp
next
  case (Cons di downs)
  from Cons.prems(2) obtain f a where f: "datagram di = Some (f, a)" "14 \<le> length f" "length f \<le> 1518"
    by auto
  from down_iter_valid_frame [OF Cons.prems(1) f(2) f(3) f(1), of nd vp]
  obtain v2 b2 evs where it: "forward_to_tap_iter nd vp buf di = (Running, v2, b2, evs)"
    and s: "written evs = [f]"
    by blast
  have len: "length b2 = ETHER_MAX_LEN"
    using down_iter_length [of nd vp buf di] it Cons.prems(1) by simp
  have rest: "\<forall>i \<in> set downs. \<exists>f a. datagram i = Some (f, a) \<and> 14 \<le> length f \<and> length f \<le> 1518"
    using Cons.prems(2) by simp
  show ?case
    using Cons.IH [OF len rest, of v2] down_loop_Cons [OF it, of downs] s f(1)
    by (simp add: written_append)
qed

lemma up_pump_all_valid:
  assumes "\<forall>i \<in> set ups. \<exists>f. tap_frame i = Some f \<and> 14 \<le> length f \<and> length f \<le> 1518"
  shows "fst (forward_ether_data_to_vswitch nd vp stack ups) = Running
       \<and> sent (snd (forward_ether_data_to_vswitch nd vp stack ups)) =
           map (\<lambda>i. (the (tap_frame i), vswitch_addr vp)) ups"
  using up_loop_all_valid [of "map stack [0..<ETHER_MAX_LEN]" ups nd vp] assms
  by (simp add: forward_ether_data_to_vswitch_def)

lemma down_pump_all_valid:
  assumes "\<forall>i \<in> set downs. \<exists>f a. datagram i = Some (f, a) \<and> 14 \<le> length f \<and> length f \<le> 1518"
  shows "fst (forward_ether_data_to_tap nd vp stack downs) = Running
       \<and> written (snd (snd (forward_ether_data_to_tap nd vp stack downs))) =
           map (\<lambda>i. fst (the (datagram i))) downs"
  using down_loop_all_valid [of "map stack [0..<ETHER_MAX_LEN]" downs nd vp] assms
  by (simp add: forward_ether_data_to_tap_def)

section \<open>The claims\<close>

subsection \<open>The peer address under the downlink pump\<close>

text \<open>
  Claim C1. The claim: receiving a datagram in the downlink pump leaves the peer (switch)
  address of the bridge unchanged; the member the uplink pump reads as its destination
  is fixed at creation and never written by the receive call.

  The code hands \<^verbatim>\<open>&vport->vswitch_addr\<close> to \<^verbatim>\<open>recvfrom\<close>, so every datagram received
  stores its sender there. The run below starts with the switch at 127.0.0.1:8080; a
  datagram from 10.0.0.9:5555 arrives; the structure then holds that address, and the
  next frame read from the TAP device is sent to it.
\<close>

theorem downlink_receive_overwrites_vswitch_addr:
  "vport_pumps False
     \<lparr>tapfd = 3, vport_sockfd = 4,
      vswitch_addr = \<lparr>sin_family = 2, sin_port = 0x901F, sin_addr = 0x0100007F\<rparr>\<rparr>
     (\<lambda>_. 0) (\<lambda>_. 0)
     [Down \<lparr>datagram = Some ([0xff, 0xff, 0xff, 0xff, 0xff, 0xff, 2, 0, 0, 0, 0, 9, 8, 6],
                              \<lparr>sin_family = 2, sin_port = 0xB315, sin_addr = 0x0900000A\<rparr>),
            write_ret = 14\<rparr>,
      Up \<lparr>tap_frame = Some [0xff, 0xff, 0xff, 0xff, 0xff, 0xff, 2, 0, 0, 0, 0, 1, 8, 6],
          sendto_ret = 14\<rparr>]
   = (Running,
      \<lparr>tapfd = 3, vport_sockfd = 4,
       vswitch_addr = \<lparr>sin_family = 2, sin_port = 0xB315, sin_addr = 0x0900000A\<rparr>\<rparr>,
      [Sys_recvfrom 4 1518,
       Sys_write 3 [0xff, 0xff, 0xff, 0xff, 0xff, 0xff, 2, 0, 0, 0, 0, 9, 8, 6],
       Stdout (Forward_to_TAP [0xff, 0xff, 0xff, 0xff, 0xff, 0xff] [2, 0, 0, 0, 0, 9] 0x0806 14),
       Sys_read 3 1518,
       Sys_sendto 4 [0xff, 0xff, 0xff, 0xff, 0xff, 0xff, 2, 0, 0, 0, 0, 1, 8, 6]
         \<lparr>sin_family = 2, sin_port = 0xB315, sin_addr = 0x0900000A\<rparr>,
       Stdout (Sent_to_VSwitch [0xff, 0xff, 0xff, 0xff, 0xff, 0xff] [2, 0, 0, 0, 0, 1] 0x0806 14)])"
  by (simp add: vport_pumps_def forward_to_tap_iter_def forward_to_vswitch_iter_def
      recvfrom_c_def read_c_def assert_c_def ether_dhost_def ether_shost_def ether_type_def
      ETHER_MAX_LEN_def Let_def)


subsection \<open>Frames below the header size\<close>

text \<open>
  Claim C2. The claim: a frame of positive length below 14 bytes is logged and dropped,
  and the pump goes on with the next frame.

  As amended: with assertions compiled in, as in the build the README gives, a frame of
  positive length below 14 bytes read from the TAP device or received from the socket
  fails \<^verbatim>\<open>assert(ether_datasz >= 14)\<close>: the process aborts in that pass, the frame is
  not forwarded, and no later frame is processed.
\<close>

theorem undersized_frame_fails_assertion:
  assumes "\<not> nd" and "f \<noteq> []" and "length f < 14" and "length buf = ETHER_MAX_LEN"
  shows "(tap_frame ui = Some f \<longrightarrow>
            forward_to_vswitch_loop nd vp buf (ui # ups) =
              (Aborted, [Sys_read (tapfd vp) ETHER_MAX_LEN, Assert_abort]))
       \<and> (datagram di = Some (f, a) \<longrightarrow>
            forward_to_tap_loop nd vp buf (di # downs) =
              (Aborted, vp\<lparr>vswitch_addr := a\<rparr>,
               [Sys_recvfrom (vport_sockfd vp) ETHER_MAX_LEN, Assert_abort]))"
proof -
  have got: "take (length buf) f = f" "take (length buf) f \<noteq> []" "length (take (length buf) f) < 14"
    using assms by (simp_all add: ETHER_MAX_LEN_def)
  have up: "forward_to_vswitch_loop nd vp buf (ui # ups) =
              (Aborted, [Sys_read (tapfd vp) ETHER_MAX_LEN, Assert_abort])"
    if "tap_frame ui = Some f"
    using up_iter_aborts [OF that refl got(2) assms(1) got(3)] assms(4) by simp
  have down: "forward_to_tap_loop nd vp buf (di # downs) =
              (Aborted, vp\<lparr>vswitch_addr := a\<rparr>,
               [Sys_recvfrom (vport_sockfd vp) ETHER_MAX_LEN, Assert_abort])"
    if "datagram di = Some (f, a)"
    using down_iter_aborts [OF that refl got(2) assms(1) got(3)] assms(4) by simp
  from up down show ?thesis by blast
qed

text \<open>Two 10-byte frames, one into each pump, each followed by further input.\<close>

theorem undersized_frame_fails_assertion_witness:
  "\<not> False \<and> [0xff, 0xff, 0xff, 0xff, 0xff, 0xff, 2, 0, 0, 0 :: byte] \<noteq> []
   \<and> length [0xff, 0xff, 0xff, 0xff, 0xff, 0xff, 2, 0, 0, 0 :: byte] < 14
   \<and> length (map (\<lambda>_. 0 :: byte) [0..<ETHER_MAX_LEN]) = ETHER_MAX_LEN
   \<and> forward_to_vswitch_loop False
        \<lparr>tapfd = 3, vport_sockfd = 4,
         vswitch_addr = \<lparr>sin_family = 2, sin_port = 0x901F, sin_addr = 0x0100007F\<rparr>\<rparr>
        (map (\<lambda>_. 0) [0..<ETHER_MAX_LEN])
        [\<lparr>tap_frame = Some [0xff, 0xff, 0xff, 0xff, 0xff, 0xff, 2, 0, 0, 0], sendto_ret = 10\<rparr>,
         \<lparr>tap_frame = Some [0xff, 0xff, 0xff, 0xff, 0xff, 0xff, 2, 0, 0, 0, 0, 1, 8, 6],
          sendto_ret = 14\<rparr>]
      = (Aborted, [Sys_read 3 ETHER_MAX_LEN, Assert_abort])
   \<and> forward_to_tap_loop False
        \<lparr>tapfd = 3, vport_sockfd = 4,
         vswitch_addr = \<lparr>sin_family = 2, sin_port = 0x901F, sin_addr = 0x0100007F\<rparr>\<rparr>
        (map (\<lambda>_. 0) [0..<ETHER_MAX_LEN])
        [\<lparr>datagram = Some ([0xff, 0xff, 0xff, 0xff, 0xff, 0xff, 2, 0, 0, 0],
                            \<lparr>sin_family = 2, sin_port = 0x901F, sin_addr = 0x0100007F\<rparr>),
          write_ret = 10\<rparr>]
      = (Aborted,
         \<lparr>tapfd = 3, vport_sockfd = 4,
          vswitch_addr = \<lparr>sin_family = 2, sin_port = 0x901F, sin_addr = 0x0100007F\<rparr>\<rparr>,
         [Sys_recvfrom 4 ETHER_MAX_LEN, Assert_abort])"
  using undersized_frame_fails_assertion
    [where nd = False and f = "[0xff, 0xff, 0xff, 0xff, 0xff, 0xff, 2, 0, 0, 0]"
       and buf = "map (\<lambda>_. 0) [0..<ETHER_MAX_LEN]"
       and vp = "\<lparr>tapfd = 3, vport_sockfd = 4,
         vswitch_addr = \<lparr>sin_family = 2, sin_port = 0x901F, sin_addr = 0x0100007F\<rparr>\<rparr>"
       and ui = "\<lparr>tap_frame = Some [0xff, 0xff, 0xff, 0xff, 0xff, 0xff, 2, 0, 0, 0],
                  sendto_ret = 10\<rparr>"
       and ups = "[\<lparr>tap_frame = Some [0xff, 0xff, 0xff, 0xff, 0xff, 0xff, 2, 0, 0, 0, 0, 1, 8, 6],
                    sendto_ret = 14\<rparr>]"
       and di = "\<lparr>datagram = Some ([0xff, 0xff, 0xff, 0xff, 0xff, 0xff, 2, 0, 0, 0],
                            \<lparr>sin_family = 2, sin_port = 0x901F, sin_addr = 0x0100007F\<rparr>),
                  write_ret = 10\<rparr>"
       and a = "\<lparr>sin_family = 2, sin_port = 0x901F, sin_addr = 0x0100007F\<rparr>"
       and downs = "[]"]
  by simp

text \<open>The claim fails on a 10-byte frame followed by a 14-byte one: the pump ends in the
  assertion and the second frame is never read.\<close>

theorem undersized_frame_counterexample:
  "forward_ether_data_to_vswitch False
     \<lparr>tapfd = 3, vport_sockfd = 4,
      vswitch_addr = \<lparr>sin_family = 2, sin_port = 0x901F, sin_addr = 0x0100007F\<rparr>\<rparr>
     (\<lambda>_. 0)
     [\<lparr>tap_frame = Some [0xff, 0xff, 0xff, 0xff, 0xff, 0xff, 2, 0, 0, 0], sendto_ret = 10\<rparr>,
      \<lparr>tap_frame = Some [0xff, 0xff, 0xff, 0xff, 0xff, 0xff, 2, 0, 0, 0, 0, 1, 8, 6],
       sendto_ret = 14\<rparr>]
   = (Aborted, [Sys_read 3 1518, Assert_abort])"
  by (simp add: forward_ether_data_to_vswitch_def forward_to_vswitch_iter_def
      read_c_def assert_c_def ETHER_MAX_LEN_def Let_def)

subsection \<open>Frames of valid size\<close>

text \<open>
  Claim C3. Take the uplink pump from its start, after any inputs that leave it in its
  loop. When its next \<^verbatim>\<open>read\<close> delivers a frame of 14 to 1518 bytes, the pump stays in its
  loop and hands exactly one more datagram to \<^verbatim>\<open>sendto\<close>: the bytes of that frame, all of
  them and unchanged, addressed to \<^verbatim>\<open>vswitch_addr\<close>; whatever arrives later only adds
  datagrams after it. The same holds for the downlink pump, a datagram of 14 to 1518
  bytes received from the socket and the frames handed to \<^verbatim>\<open>write\<close>.
\<close>

theorem pumps_forward_frame_unmodified:
  assumes "14 \<le> length f" and "length f \<le> 1518"
  shows "(fst (forward_ether_data_to_vswitch nd vp stack pre) = Running \<and> tap_frame ui = Some f \<longrightarrow>
            fst (forward_ether_data_to_vswitch nd vp stack (pre @ [ui])) = Running
          \<and> sent (snd (forward_ether_data_to_vswitch nd vp stack (pre @ [ui]))) =
              sent (snd (forward_ether_data_to_vswitch nd vp stack pre)) @ [(f, vswitch_addr vp)]
          \<and> (\<exists>later. sent (snd (forward_ether_data_to_vswitch nd vp stack (pre @ ui # post))) =
              sent (snd (forward_ether_data_to_vswitch nd vp stack pre))
              @ (f, vswitch_addr vp) # later))
       \<and> (fst (forward_ether_data_to_tap nd vp stack' dpre) = Running \<and> datagram di = Some (f, a) \<longrightarrow>
            fst (forward_ether_data_to_tap nd vp stack' (dpre @ [di])) = Running
          \<and> written (snd (snd (forward_ether_data_to_tap nd vp stack' (dpre @ [di])))) =
              written (snd (snd (forward_ether_data_to_tap nd vp stack' dpre))) @ [f]
          \<and> (\<exists>later. written (snd (snd (forward_ether_data_to_tap nd vp stack' (dpre @ di # dpost)))) =
              written (snd (snd (forward_ether_data_to_tap nd vp stack' dpre))) @ f # later))"
proof (intro conjI impI)
  assume h: "fst (forward_ether_data_to_vswitch nd vp stack pre) = Running \<and> tap_frame ui = Some f"
  let ?b = "map stack [0..<ETHER_MAX_LEN]"
  from h have run: "fst (forward_to_vswitch_loop nd vp ?b pre) = Running"
    by (simp add: forward_ether_data_to_vswitch_def)
  from up_loop_append [OF run] obtain buf' where len: "length buf' = ETHER_MAX_LEN"
    and eq: "\<And>post. forward_to_vswitch_loop nd vp ?b (pre @ post) =
              (fst (forward_to_vswitch_loop nd vp buf' post),
               snd (forward_to_vswitch_loop nd vp ?b pre)
               @ snd (forward_to_vswitch_loop nd vp buf' post))"
    by auto
  from up_iter_valid_frame [OF len assms, of ui nd vp] h
  obtain b2 evs where it: "forward_to_vswitch_iter nd vp buf' ui = (Running, b2, evs)"
    and s: "sent evs = [(f, vswitch_addr vp)]"
    by blast
  note step = up_loop_Cons [OF it]
  show "fst (forward_ether_data_to_vswitch nd vp stack (pre @ [ui])) = Running"
    using eq [of "[ui]"] step [of "[]"] by (simp add: forward_ether_data_to_vswitch_def)
  show "sent (snd (forward_ether_data_to_vswitch nd vp stack (pre @ [ui]))) =
          sent (snd (forward_ether_data_to_vswitch nd vp stack pre)) @ [(f, vswitch_addr vp)]"
    using eq [of "[ui]"] step [of "[]"] s
    by (simp add: forward_ether_data_to_vswitch_def sent_append)
  show "\<exists>later. sent (snd (forward_ether_data_to_vswitch nd vp stack (pre @ ui # post))) =
          sent (snd (forward_ether_data_to_vswitch nd vp stack pre)) @ (f, vswitch_addr vp) # later"
    using eq [of "ui # post"] step [of post] s
    by (simp add: forward_ether_data_to_vswitch_def sent_append)
next
  assume h: "fst (forward_ether_data_to_tap nd vp stack' dpre) = Running \<and> datagram di = Some (f, a)"
  let ?b = "map stack' [0..<ETHER_MAX_LEN]"
  from h have run: "fst (forward_to_tap_loop nd vp ?b dpre) = Running"
    by (simp add: forward_ether_data_to_tap_def)
  from down_loop_append [OF run] obtain vp' buf' where len: "length buf' = ETHER_MAX_LEN"
    and eq: "\<And>post. forward_to_tap_loop nd vp ?b (dpre @ post) =
              (fst (forward_to_tap_loop nd vp' buf' post),
               fst (snd (forward_to_tap_loop nd vp' buf' post)),
               snd (snd (forward_to_tap_loop nd vp ?b dpre))
               @ snd (snd (forward_to_tap_loop nd vp' buf' post)))"
    by auto
  from down_iter_valid_frame [OF len assms, of di a nd vp'] h
  obtain v2 b2 evs where it: "forward_to_tap_iter nd vp' buf' di = (Running, v2, b2, evs)"
    and s: "written evs = [f]"
    by blast
  note step = down_loop_Cons [OF it]
  show "fst (forward_ether_data_to_tap nd vp stack' (dpre @ [di])) = Running"
    using eq [of "[di]"] step [of "[]"] by (simp add: forward_ether_data_to_tap_def)
  show "written (snd (snd (forward_ether_data_to_tap nd vp stack' (dpre @ [di])))) =
          written (snd (snd (forward_ether_data_to_tap nd vp stack' dpre))) @ [f]"
    using eq [of "[di]"] step [of "[]"] s
    by (simp add: forward_ether_data_to_tap_def written_append)
  show "\<exists>later. written (snd (snd (forward_ether_data_to_tap nd vp stack' (dpre @ di # dpost)))) =
          written (snd (snd (forward_ether_data_to_tap nd vp stack' dpre))) @ f # later"
    using eq [of "di # dpost"] step [of dpost] s
    by (simp add: forward_ether_data_to_tap_def written_append)
qed

text \<open>Each pump after one frame of 16 bytes, then a frame of 14 bytes.\<close>

theorem pumps_forward_frame_unmodified_witness:
  "14 \<le> length [0xff, 0xff, 0xff, 0xff, 0xff, 0xff, 2, 0, 0, 0, 0, 1, 8, 6 :: byte]
   \<and> length [0xff, 0xff, 0xff, 0xff, 0xff, 0xff, 2, 0, 0, 0, 0, 1, 8, 6 :: byte] \<le> 1518
   \<and> fst (forward_ether_data_to_vswitch False
        \<lparr>tapfd = 3, vport_sockfd = 4,
         vswitch_addr = \<lparr>sin_family = 2, sin_port = 0x901F, sin_addr = 0x0100007F\<rparr>\<rparr>
        (\<lambda>_. 0)
        [\<lparr>tap_frame = Some [0xff, 0xff, 0xff, 0xff, 0xff, 0xff, 2, 0, 0, 0, 0, 7, 8, 0, 1, 2],
          sendto_ret = 16\<rparr>]) = Running
   \<and> sent (snd (forward_ether_data_to_vswitch False
        \<lparr>tapfd = 3, vport_sockfd = 4,
         vswitch_addr = \<lparr>sin_family = 2, sin_port = 0x901F, sin_addr = 0x0100007F\<rparr>\<rparr>
        (\<lambda>_. 0)
        [\<lparr>tap_frame = Some [0xff, 0xff, 0xff, 0xff, 0xff, 0xff, 2, 0, 0, 0, 0, 7, 8, 0, 1, 2],
          sendto_ret = 16\<rparr>,
         \<lparr>tap_frame = Some [0xff, 0xff, 0xff, 0xff, 0xff, 0xff, 2, 0, 0, 0, 0, 1, 8, 6],
          sendto_ret = 14\<rparr>]))
      = [([0xff, 0xff, 0xff, 0xff, 0xff, 0xff, 2, 0, 0, 0, 0, 7, 8, 0, 1, 2],
          \<lparr>sin_family = 2, sin_port = 0x901F, sin_addr = 0x0100007F\<rparr>),
         ([0xff, 0xff, 0xff, 0xff, 0xff, 0xff, 2, 0, 0, 0, 0, 1, 8, 6],
          \<lparr>sin_family = 2, sin_port = 0x901F, sin_addr = 0x0100007F\<rparr>)]
   \<and> fst (forward_ether_data_to_tap False
        \<lparr>tapfd = 3, vport_sockfd = 4,
         vswitch_addr = \<lparr>sin_family = 2, sin_port = 0x901F, sin_addr = 0x0100007F\<rparr>\<rparr>
        (\<lambda>_. 0)
        [\<lparr>datagram = Some ([0xff, 0xff, 0xff, 0xff, 0xff, 0xff, 2, 0, 0, 0, 0, 7, 8, 0, 1, 2],
                            \<lparr>sin_family = 2, sin_port = 0x901F, sin_addr = 0x0100007F\<rparr>),
          write_ret = 16\<rparr>]) = Running
   \<and> written (snd (snd (forward_ether_data_to_tap False
        \<lparr>tapfd = 3, vport_sockfd = 4,
         vswitch_addr = \<lparr>sin_family = 2, sin_port = 0x901F, sin_addr = 0x0100007F\<rparr>\<rparr>
        (\<lambda>_. 0)
        [\<lparr>datagram = Some ([0xff, 0xff, 0xff, 0xff, 0xff, 0xff, 2, 0, 0, 0, 0, 7, 8, 0, 1, 2],
                            \<lparr>sin_family = 2, sin_port = 0x901F, sin_addr = 0x0100007F\<rparr>),
          write_ret = 16\<rparr>,
         \<lparr>datagram = Some ([0xff, 0xff, 0xff, 0xff, 0xff, 0xff, 2, 0, 0, 0, 0, 1, 8, 6],
                            \<lparr>sin_family = 2, sin_port = 0x901F, sin_addr = 0x0100007F\<rparr>),
          write_ret = 14\<rparr>])))
      = [0xff, 0xff, 0xff, 0xff, 0xff, 0xff, 2, 0, 0, 0, 0, 7, 8, 0, 1, 2]
        # [0xff, 0xff, 0xff, 0xff, 0xff, 0xff, 2, 0, 0, 0, 0, 1, 8, 6] # []"
  using pumps_forward_frame_unmodified
    [where f = "[0xff, 0xff, 0xff, 0xff, 0xff, 0xff, 2, 0, 0, 0, 0, 1, 8, 6]"
       and nd = False
       and vp = "\<lparr>tapfd = 3, vport_sockfd = 4,
         vswitch_addr = \<lparr>sin_family = 2, sin_port = 0x901F, sin_addr = 0x0100007F\<rparr>\<rparr>"
       and stack = "\<lambda>_. 0" and stack' = "\<lambda>_. 0"
       and pre = "[\<lparr>tap_frame = Some [0xff, 0xff, 0xff, 0xff, 0xff, 0xff, 2, 0, 0, 0, 0, 7, 8, 0, 1, 2],
                    sendto_ret = 16\<rparr>]"
       and ui = "\<lparr>tap_frame = Some [0xff, 0xff, 0xff, 0xff, 0xff, 0xff, 2, 0, 0, 0, 0, 1, 8, 6],
                  sendto_ret = 14\<rparr>"
       and post = "[]"
       and dpre = "[\<lparr>datagram = Some ([0xff, 0xff, 0xff, 0xff, 0xff, 0xff, 2, 0, 0, 0, 0, 7, 8, 0, 1, 2],
                            \<lparr>sin_family = 2, sin_port = 0x901F, sin_addr = 0x0100007F\<rparr>),
                     write_ret = 16\<rparr>]"
       and di = "\<lparr>datagram = Some ([0xff, 0xff, 0xff, 0xff, 0xff, 0xff, 2, 0, 0, 0, 0, 1, 8, 6],
                            \<lparr>sin_family = 2, sin_port = 0x901F, sin_addr = 0x0100007F\<rparr>),
                  write_ret = 14\<rparr>"
       and a = "\<lparr>sin_family = 2, sin_port = 0x901F, sin_addr = 0x0100007F\<rparr>"
       and dpost = "[]"]
  by (simp add: forward_ether_data_to_vswitch_def forward_ether_data_to_tap_def
      forward_to_vswitch_iter_def forward_to_tap_iter_def read_c_def recvfrom_c_def
      assert_c_def ETHER_MAX_LEN_def Let_def)

subsection \<open>Failures of the local interface\<close>

text \<open>
  Claim C4. The claim: a negative return of \<^verbatim>\<open>read\<close> in the uplink pump or of \<^verbatim>\<open>write\<close>
  in the downlink pump is fatal for the bridge; the pump neither retries nor goes on.

  As amended: neither failure ends the pump. After a failed \<^verbatim>\<open>read\<close> the uplink pump
  sends nothing in that pass and goes back to \<^verbatim>\<open>read\<close>. After a failed \<^verbatim>\<open>write\<close> of a
  valid frame the downlink pump reports a size mismatch on the error stream, does not
  write that frame again, and goes on to the next \<^verbatim>\<open>recvfrom\<close>.
\<close>

theorem local_interface_failure_not_fatal:
  "(tap_frame ui = None \<longrightarrow>
      forward_to_vswitch_loop nd vp buf (ui # ups) =
        (fst (forward_to_vswitch_loop nd vp buf ups),
         Sys_read (tapfd vp) (length buf) # snd (forward_to_vswitch_loop nd vp buf ups)))
 \<and> (datagram di = Some (f, a) \<and> 14 \<le> length f \<and> length f \<le> length buf \<and> write_ret di < 0 \<longrightarrow>
      forward_to_tap_loop nd vp buf (di # downs) =
        (let buf' = f @ drop (length f) buf;
             rest = forward_to_tap_loop nd (vp\<lparr>vswitch_addr := a\<rparr>) buf' downs
         in (fst rest, fst (snd rest),
             [Sys_recvfrom (vport_sockfd vp) (length buf),
              Sys_write (tapfd vp) f,
              Stderr (Write_size_mismatch (int (length f)) (write_ret di)),
              Stdout (Forward_to_TAP (ether_dhost buf') (ether_shost buf') (ether_type buf')
                        (int (length f)))]
             @ snd (snd rest))))"
proof -
  have up: "forward_to_vswitch_loop nd vp buf (ui # ups) =
        (fst (forward_to_vswitch_loop nd vp buf ups),
         Sys_read (tapfd vp) (length buf) # snd (forward_to_vswitch_loop nd vp buf ups))"
    if "tap_frame ui = None"
    using up_iter_read_fails [OF that, of nd vp buf] by (simp add: split_beta)
  have down: "forward_to_tap_loop nd vp buf (di # downs) =
        (let buf' = f @ drop (length f) buf;
             rest = forward_to_tap_loop nd (vp\<lparr>vswitch_addr := a\<rparr>) buf' downs
         in (fst rest, fst (snd rest),
             [Sys_recvfrom (vport_sockfd vp) (length buf),
              Sys_write (tapfd vp) f,
              Stderr (Write_size_mismatch (int (length f)) (write_ret di)),
              Stdout (Forward_to_TAP (ether_dhost buf') (ether_shost buf') (ether_type buf')
                        (int (length f)))]
             @ snd (snd rest)))"
    if h: "datagram di = Some (f, a)" "14 \<le> length f" "length f \<le> length buf" "write_ret di < 0"
  proof -
    have got: "f = take (length buf) f" "take (length buf) f \<noteq> []"
      "nd \<or> 14 \<le> length (take (length buf) f)"
      using h by auto
    have neq: "write_ret di \<noteq> int (length f)"
      using h(4) by simp
    show ?thesis
      using down_iter_forwards [OF h(1) refl got(2) got(3), of vp] got(1) neq
      by (simp add: split_beta Let_def)
  qed
  from up down show ?thesis by blast
qed

theorem local_interface_failure_not_fatal_witness:
  "tap_frame \<lparr>tap_frame = None, sendto_ret = 0\<rparr> = None
   \<and> forward_to_vswitch_loop False
        \<lparr>tapfd = 3, vport_sockfd = 4,
         vswitch_addr = \<lparr>sin_family = 2, sin_port = 0x901F, sin_addr = 0x0100007F\<rparr>\<rparr>
        (map (\<lambda>_. 0) [0..<ETHER_MAX_LEN])
        [\<lparr>tap_frame = None, sendto_ret = 0\<rparr>, \<lparr>tap_frame = None, sendto_ret = 0\<rparr>]
      = (Running, [Sys_read 3 1518, Sys_read 3 1518])
   \<and> 14 \<le> length [0xff, 0xff, 0xff, 0xff, 0xff, 0xff, 2, 0, 0, 0, 0, 9, 8, 6 :: byte]
   \<and> length [0xff, 0xff, 0xff, 0xff, 0xff, 0xff, 2, 0, 0, 0, 0, 9, 8, 6 :: byte]
        \<le> length (map (\<lambda>_. 0 :: byte) [0..<ETHER_MAX_LEN])
   \<and> (- 1 :: int) < 0
   \<and> forward_to_tap_loop False
        \<lparr>tapfd = 3, vport_sockfd = 4,
         vswitch_addr = \<lparr>sin_family = 2, sin_port = 0x901F, sin_addr = 0x0100007F\<rparr>\<rparr>
        (map (\<lambda>_. 0) [0..<ETHER_MAX_LEN])
        [\<lparr>datagram = Some ([0xff, 0xff, 0xff, 0xff, 0xff, 0xff, 2, 0, 0, 0, 0, 9, 8, 6],
                            \<lparr>sin_family = 2, sin_port = 0x901F, sin_addr = 0x0100007F\<rparr>),
          write_ret = - 1\<rparr>,
         \<lparr>datagram = None, write_ret = 0\<rparr>]
      = (Running,
         \<lparr>tapfd = 3, vport_sockfd = 4,
          vswitch_addr = \<lparr>sin_family = 2, sin_port = 0x901F, sin_addr = 0x0100007F\<rparr>\<rparr>,
         [Sys_recvfrom 4 1518,
          Sys_write 3 [0xff, 0xff, 0xff, 0xff, 0xff, 0xff, 2, 0, 0, 0, 0, 9, 8, 6],
          Stderr (Write_size_mismatch 14 (- 1)),
          Stdout (Forward_to_TAP [0xff, 0xff, 0xff, 0xff, 0xff, 0xff] [2, 0, 0, 0, 0, 9] 0x0806 14),
          Sys_recvfrom 4 1518])"
  using local_interface_failure_not_fatal
    [where nd = False
       and vp = "\<lparr>tapfd = 3, vport_sockfd = 4,
         vswitch_addr = \<lparr>sin_family = 2, sin_port = 0x901F, sin_addr = 0x0100007F\<rparr>\<rparr>"
       and buf = "map (\<lambda>_. 0) [0..<ETHER_MAX_LEN]"
       and ui = "\<lparr>tap_frame = None, sendto_ret = 0\<rparr>"
       and ups = "[\<lparr>tap_frame = None, sendto_ret = 0\<rparr>]"
       and f = "[0xff, 0xff, 0xff, 0xff, 0xff, 0xff, 2, 0, 0, 0, 0, 9, 8, 6]"
       and a = "\<lparr>sin_family = 2, sin_port = 0x901F, sin_addr = 0x0100007F\<rparr>"
       and di = "\<lparr>datagram = Some ([0xff, 0xff, 0xff, 0xff, 0xff, 0xff, 2, 0, 0, 0, 0, 9, 8, 6],
                            \<lparr>sin_family = 2, sin_port = 0x901F, sin_addr = 0x0100007F\<rparr>),
                  write_ret = - 1\<rparr>"
       and downs = "[\<lparr>datagram = None, write_ret = 0\<rparr>]"]
  by (simp add: forward_to_vswitch_iter_def forward_to_tap_iter_def read_c_def recvfrom_c_def
      assert_c_def ether_dhost_def ether_shost_def ether_type_def ETHER_MAX_LEN_def Let_def)

text \<open>The claim fails when \<^verbatim>\<open>read\<close> returns -1 and a frame of 14 bytes follows: the pump
  reads again and sends that frame.\<close>

theorem local_interface_failure_counterexample:
  "forward_ether_data_to_vswitch False
     \<lparr>tapfd = 3, vport_sockfd = 4,
      vswitch_addr = \<lparr>sin_family = 2, sin_port = 0x901F, sin_addr = 0x0100007F\<rparr>\<rparr>
     (\<lambda>_. 0)
     [\<lparr>tap_frame = None, sendto_ret = 0\<rparr>,
      \<lparr>tap_frame = Some [0xff, 0xff, 0xff, 0xff, 0xff, 0xff, 2, 0, 0, 0, 0, 1, 8, 6],
       sendto_ret = 14\<rparr>]
   = (Running,
      [Sys_read 3 1518,
       Sys_read 3 1518,
       Sys_sendto 4 [0xff, 0xff, 0xff, 0xff, 0xff, 0xff, 2, 0, 0, 0, 0, 1, 8, 6]
         \<lparr>sin_family = 2, sin_port = 0x901F, sin_addr = 0x0100007F\<rparr>,
       Stdout (Sent_to_VSwitch [0xff, 0xff, 0xff, 0xff, 0xff, 0xff] [2, 0, 0, 0, 0, 1] 0x0806 14)])"
  by (simp add: forward_ether_data_to_vswitch_def forward_to_vswitch_iter_def
      read_c_def assert_c_def ether_dhost_def ether_shost_def ether_type_def
      ETHER_MAX_LEN_def Let_def)

subsection \<open>The switch never echoes\<close>

text \<open>
  Claim C5. Whatever the state of the switch, the forwarding engine transmits no frame to
  the address it arrived from; and a unicast frame whose destination is learned at the
  source address produces no action at all.
\<close>

theorem switch_no_self_echo:
  "source_address \<notin> set (transmitted_to (snd (switch_forward idle now sw frame source_address)))
 \<and> (14 \<le> length frame \<and> \<not> is_broadcast (take 6 frame) \<and> \<not> is_multicast (take 6 frame)
    \<and> lookup (learn (mac_table sw) now (take 6 (drop 6 frame)) source_address) idle now
         (take 6 frame) = Some source_address
    \<longrightarrow> snd (switch_forward idle now sw frame source_address) = [])"
proof -
  have flood: "source_address \<notin> set (transmitted_to
      (map (\<lambda>p. Transmit p frame) (filter (\<lambda>p. p \<noteq> source_address) ps)))" for ps
    by (induction ps) simp_all
  show ?thesis
    using flood
    by (auto simp add: switch_forward_def Let_def split: option.splits)
qed

theorem switch_no_self_echo_witness:
  "14 \<le> length [2, 0, 0, 0, 0, 1, 2, 0, 0, 0, 0, 2, 8, 0 :: byte]
   \<and> \<not> is_broadcast (take 6 [2, 0, 0, 0, 0, 1, 2, 0, 0, 0, 0, 2, 8, 0 :: byte])
   \<and> \<not> is_multicast (take 6 [2, 0, 0, 0, 0, 1, 2, 0, 0, 0, 0, 2, 8, 0 :: byte])
   \<and> lookup (learn (Map.empty([2, 0, 0, 0, 0, 1] \<mapsto> \<lparr>port = (0x0100007F, 0x1F90), last_seen = 5\<rparr>))
               7 (take 6 (drop 6 [2, 0, 0, 0, 0, 1, 2, 0, 0, 0, 0, 2, 8, 0])) (0x0100007F, 0x1F90))
        300 7 (take 6 [2, 0, 0, 0, 0, 1, 2, 0, 0, 0, 0, 2, 8, 0])
       = Some (0x0100007F, 0x1F90)
   \<and> snd (switch_forward 300 7
        \<lparr>registry = [(0x0100007F, 0x1F90), (0x0100007F, 0x1F91)],
         mac_table = Map.empty([2, 0, 0, 0, 0, 1] \<mapsto> \<lparr>port = (0x0100007F, 0x1F90), last_seen = 5\<rparr>)\<rparr>
        [2, 0, 0, 0, 0, 1, 2, 0, 0, 0, 0, 2, 8, 0] (0x0100007F, 0x1F90)) = []
   \<and> (0x0100007F, 0x1F90) \<notin> set (transmitted_to (snd (switch_forward 300 7
        \<lparr>registry = [(0x0100007F, 0x1F90), (0x0100007F, 0x1F91)],
         mac_table = Map.empty([2, 0, 0, 0, 0, 1] \<mapsto> \<lparr>port = (0x0100007F, 0x1F90), last_seen = 5\<rparr>)\<rparr>
        [2, 0, 0, 0, 0, 1, 2, 0, 0, 0, 0, 2, 8, 0] (0x0100007F, 0x1F90))))"
  using switch_no_self_echo
    [where idle = 300 and now = 7
       and sw = "\<lparr>registry = [(0x0100007F, 0x1F90), (0x0100007F, 0x1F91)],
         mac_table = Map.empty([2, 0, 0, 0, 0, 1] \<mapsto> \<lparr>port = (0x0100007F, 0x1F90), last_seen = 5\<rparr>)\<rparr>"
       and frame = "[2, 0, 0, 0, 0, 1, 2, 0, 0, 0, 0, 2, 8, 0]"
       and source_address = "(0x0100007F, 0x1F90)"]
  by (simp add: is_broadcast_def is_multicast_def lookup_def learn_def)

subsection \<open>Short sends\<close>

text \<open>
  Claim C6. When \<^verbatim>\<open>sendto\<close> returns a count other than the length of the frame, the pass
  of the uplink pump consists of the \<^verbatim>\<open>read\<close>, one \<^verbatim>\<open>sendto\<close> of the frame, the mismatch
  line on the error stream and the log line; the loop then goes on with the next pass.
\<close>

theorem uplink_short_send_logged_not_retried:
  assumes "tap_frame ui = Some f" and "got = take (length buf) f"
    and "got \<noteq> []" and "nd \<or> 14 \<le> length got"
    and "sendto_ret ui \<noteq> int (length got)"
  shows "forward_to_vswitch_loop nd vp buf (ui # ups) =
           (let buf' = got @ drop (length got) buf;
                rest = forward_to_vswitch_loop nd vp buf' ups
            in (fst rest,
                [Sys_read (tapfd vp) (length buf),
                 Sys_sendto (vport_sockfd vp) got (vswitch_addr vp),
                 Stderr (Sendto_size_mismatch (int (length got)) (sendto_ret ui)),
                 Stdout (Sent_to_VSwitch (ether_dhost buf') (ether_shost buf') (ether_type buf')
                           (int (length got)))]
                @ snd rest))"
  using up_iter_forwards [OF assms(1-4), of vp] assms(5)
  by (simp add: split_beta Let_def)

theorem uplink_short_send_logged_not_retried_witness:
  "tap_frame \<lparr>tap_frame = Some [0xff, 0xff, 0xff, 0xff, 0xff, 0xff, 2, 0, 0, 0, 0, 1, 8, 6],
              sendto_ret = - 1\<rparr>
     = Some [0xff, 0xff, 0xff, 0xff, 0xff, 0xff, 2, 0, 0, 0, 0, 1, 8, 6]
   \<and> [0xff, 0xff, 0xff, 0xff, 0xff, 0xff, 2, 0, 0, 0, 0, 1, 8, 6 :: byte]
       = take (length (map (\<lambda>_. 0 :: byte) [0..<ETHER_MAX_LEN]))
           [0xff, 0xff, 0xff, 0xff, 0xff, 0xff, 2, 0, 0, 0, 0, 1, 8, 6]
   \<and> [0xff, 0xff, 0xff, 0xff, 0xff, 0xff, 2, 0, 0, 0, 0, 1, 8, 6 :: byte] \<noteq> []
   \<and> (False \<or> 14 \<le> length [0xff, 0xff, 0xff, 0xff, 0xff, 0xff, 2, 0, 0, 0, 0, 1, 8, 6 :: byte])
   \<and> (- 1 :: int) \<noteq> int (length [0xff, 0xff, 0xff, 0xff, 0xff, 0xff, 2, 0, 0, 0, 0, 1, 8, 6 :: byte])
   \<and> forward_to_vswitch_loop False
        \<lparr>tapfd = 3, vport_sockfd = 4,
         vswitch_addr = \<lparr>sin_family = 2, sin_port = 0x901F, sin_addr = 0x0100007F\<rparr>\<rparr>
        (map (\<lambda>_. 0) [0..<ETHER_MAX_LEN])
        [\<lparr>tap_frame = Some [0xff, 0xff, 0xff, 0xff, 0xff, 0xff, 2, 0, 0, 0, 0, 1, 8, 6],
          sendto_ret = - 1\<rparr>,
         \<lparr>tap_frame = None, sendto_ret = 0\<rparr>]
      = (Running,
         [Sys_read 3 1518,
          Sys_sendto 4 [0xff, 0xff, 0xff, 0xff, 0xff, 0xff, 2, 0, 0, 0, 0, 1, 8, 6]
            \<lparr>sin_family = 2, sin_port = 0x901F, sin_addr = 0x0100007F\<rparr>,
          Stderr (Sendto_size_mismatch 14 (- 1)),
          Stdout (Sent_to_VSwitch [0xff, 0xff, 0xff, 0xff, 0xff, 0xff] [2, 0, 0, 0, 0, 1] 0x0806 14),
          Sys_read 3 1518])"
  using uplink_short_send_logged_not_retried
    [where nd = False
       and vp = "\<lparr>tapfd = 3, vport_sockfd = 4,
         vswitch_addr = \<lparr>sin_family = 2, sin_port = 0x901F, sin_addr = 0x0100007F\<rparr>\<rparr>"
       and buf = "map (\<lambda>_. 0) [0..<ETHER_MAX_LEN]"
       and f = "[0xff, 0xff, 0xff, 0xff, 0xff, 0xff, 2, 0, 0, 0, 0, 1, 8, 6]"
       and got = "[0xff, 0xff, 0xff, 0xff, 0xff, 0xff, 2, 0, 0, 0, 0, 1, 8, 6]"
       and ui = "\<lparr>tap_frame = Some [0xff, 0xff, 0xff, 0xff, 0xff, 0xff, 2, 0, 0, 0, 0, 1, 8, 6],
                  sendto_ret = - 1\<rparr>"
       and ups = "[\<lparr>tap_frame = None, sendto_ret = 0\<rparr>]"]
  by (simp add: forward_to_vswitch_iter_def read_c_def
      assert_c_def ether_dhost_def ether_shost_def ether_type_def ETHER_MAX_LEN_def Let_def)

subsection \<open>Failures of the setup\<close>

text \<open>
  Claim C7. In \<^verbatim>\<open>vport_init\<close>, a negative descriptor from \<^verbatim>\<open>tap_alloc\<close>, a negative
  descriptor from \<^verbatim>\<open>socket\<close>, or an address text that does not parse each end the
  process with status 1 right after a diagnostic on the error stream; no structure is
  handed back.
\<close>

theorem vport_init_setup_failure_exits:
  assumes "tap_alloc env ''tapyuan'' = (tfd, nm, evs)"
  shows "(tfd < 0 \<longrightarrow>
            vport_init env pton ip prt = (Exit 1, evs @ [Stderr Fail_tap_alloc]))
       \<and> (0 \<le> tfd \<and> socket_ret env < 0 \<longrightarrow>
            vport_init env pton ip prt =
              (Exit 1, evs @ [Sys_socket AF_INET SOCK_DGRAM 0, Stderr Fail_socket]))
       \<and> (0 \<le> tfd \<and> 0 \<le> socket_ret env \<and> pton ip = None \<longrightarrow>
            vport_init env pton ip prt =
              (Exit 1, evs @ [Sys_socket AF_INET SOCK_DGRAM 0, Stderr Fail_inet_pton]))"
  using assms
  by (simp add: vport_init_def ERROR_PRINT_THEN_EXIT_def inet_pton_def Let_def)

theorem vport_init_setup_failure_exits_witness:
  "tap_alloc \<lparr>open_ret = - 1, ioctl_ret = 0, ioctl_name = ''tapyuan'', socket_ret = 4\<rparr> ''tapyuan''
     = (- 1, ''tapyuan'', [Sys_open ''/dev/net/tun''])
   \<and> (- 1 :: int) < 0
   \<and> vport_init \<lparr>open_ret = - 1, ioctl_ret = 0, ioctl_name = ''tapyuan'', socket_ret = 4\<rparr>
        (\<lambda>s. if s = ''127.0.0.1'' then Some 0x0100007F else None) ''127.0.0.1'' 8080
      = (Exit 1, [Sys_open ''/dev/net/tun'', Stderr Fail_tap_alloc])
   \<and> tap_alloc \<lparr>open_ret = 3, ioctl_ret = 0, ioctl_name = ''tapyuan'', socket_ret = - 1\<rparr> ''tapyuan''
     = (3, ''tapyuan'',
        [Sys_open ''/dev/net/tun'',
         Sys_ioctl_TUNSETIFF 3 \<lparr>ifr_name = ''tapyuan'', ifr_flags = 0x1002\<rparr>])
   \<and> vport_init \<lparr>open_ret = 3, ioctl_ret = 0, ioctl_name = ''tapyuan'', socket_ret = - 1\<rparr>
        (\<lambda>s. if s = ''127.0.0.1'' then Some 0x0100007F else None) ''127.0.0.1'' 8080
      = (Exit 1,
         [Sys_open ''/dev/net/tun'',
          Sys_ioctl_TUNSETIFF 3 \<lparr>ifr_name = ''tapyuan'', ifr_flags = 0x1002\<rparr>,
          Sys_socket 2 2 0, Stderr Fail_socket])
   \<and> tap_alloc \<lparr>open_ret = 3, ioctl_ret = 0, ioctl_name = ''tapyuan'', socket_ret = 4\<rparr> ''tapyuan''
     = (3, ''tapyuan'',
        [Sys_open ''/dev/net/tun'',
         Sys_ioctl_TUNSETIFF 3 \<lparr>ifr_name = ''tapyuan'', ifr_flags = 0x1002\<rparr>])
   \<and> (\<lambda>s. if s = ''127.0.0.1'' then Some (0x0100007F :: 32 word) else None) ''localhost'' = None
   \<and> vport_init \<lparr>open_ret = 3, ioctl_ret = 0, ioctl_name = ''tapyuan'', socket_ret = 4\<rparr>
        (\<lambda>s. if s = ''127.0.0.1'' then Some 0x0100007F else None) ''localhost'' 8080
      = (Exit 1,
         [Sys_open ''/dev/net/tun'',
          Sys_ioctl_TUNSETIFF 3 \<lparr>ifr_name = ''tapyuan'', ifr_flags = 0x1002\<rparr>,
          Sys_socket 2 2 0, Stderr Fail_inet_pton])"
  using vport_init_setup_failure_exits
    [where env = "\<lparr>open_ret = - 1, ioctl_ret = 0, ioctl_name = ''tapyuan'', socket_ret = 4\<rparr>"
       and tfd = "- 1" and nm = "''tapyuan''" and evs = "[Sys_open ''/dev/net/tun'']"
       and pton = "\<lambda>s. if s = ''127.0.0.1'' then Some 0x0100007F else None"
       and ip = "''127.0.0.1''" and prt = 8080]
    vport_init_setup_failure_exits
    [where env = "\<lparr>open_ret = 3, ioctl_ret = 0, ioctl_name = ''tapyuan'', socket_ret = - 1\<rparr>"
       and tfd = 3 and nm = "''tapyuan''"
       and evs = "[Sys_open ''/dev/net/tun'',
                   Sys_ioctl_TUNSETIFF 3 \<lparr>ifr_name = ''tapyuan'', ifr_flags = 0x1002\<rparr>]"
       and pton = "\<lambda>s. if s = ''127.0.0.1'' then Some 0x0100007F else None"
       and ip = "''127.0.0.1''" and prt = 8080]
    vport_init_setup_failure_exits
    [where env = "\<lparr>open_ret = 3, ioctl_ret = 0, ioctl_name = ''tapyuan'', socket_ret = 4\<rparr>"
       and tfd = 3 and nm = "''tapyuan''"
       and evs = "[Sys_open ''/dev/net/tun'',
                   Sys_ioctl_TUNSETIFF 3 \<lparr>ifr_name = ''tapyuan'', ifr_flags = 0x1002\<rparr>]"
       and pton = "\<lambda>s. if s = ''127.0.0.1'' then Some 0x0100007F else None"
       and ip = "''localhost''" and prt = 8080]
  by (simp add: tap_alloc_def ioctl_TUNSETIFF_def strncpy_def IFNAMSIZ_def IFF_TAP_def
      IFF_NO_PI_def AF_INET_def SOCK_DGRAM_def Let_def)

subsection \<open>The size of what is forwarded\<close>

text \<open>
  Claim C8. Whatever arrives, every datagram the uplink pump hands to \<^verbatim>\<open>sendto\<close> and every
  frame the downlink pump hands to \<^verbatim>\<open>write\<close> has at most 1518 bytes.
\<close>

theorem forwarded_frames_at_most_1518:
  "(\<forall>x \<in> set (sent (snd (forward_ether_data_to_vswitch nd vp stack ups))).
      length (fst x) \<le> 1518)
 \<and> (\<forall>d \<in> set (written (snd (snd (forward_ether_data_to_tap nd vp stack' downs)))).
      length d \<le> 1518)"
  using up_loop_sent_bound [of nd vp "map stack [0..<ETHER_MAX_LEN]" ups]
        down_loop_written_bound [of nd vp "map stack' [0..<ETHER_MAX_LEN]" downs]
  by (simp add: forward_ether_data_to_vswitch_def forward_ether_data_to_tap_def
      ETHER_MAX_LEN_def)

text \<open>A frame of 1600 bytes into each pump: the first 1518 bytes are forwarded.\<close>

theorem forwarded_frames_at_most_1518_witness:
  "sent (snd (forward_ether_data_to_vswitch False
        \<lparr>tapfd = 3, vport_sockfd = 4,
         vswitch_addr = \<lparr>sin_family = 2, sin_port = 0x901F, sin_addr = 0x0100007F\<rparr>\<rparr>
        (\<lambda>_. 0) [\<lparr>tap_frame = Some (replicate 1600 0x55), sendto_ret = 1518\<rparr>]))
     = [(replicate 1518 0x55, \<lparr>sin_family = 2, sin_port = 0x901F, sin_addr = 0x0100007F\<rparr>)]
   \<and> length (fst (replicate 1518 (0x55 :: byte),
          \<lparr>sin_family = 2 :: 16 word, sin_port = 0x901F :: 16 word,
           sin_addr = 0x0100007F :: 32 word\<rparr>)) \<le> 1518
   \<and> written (snd (snd (forward_ether_data_to_tap False
        \<lparr>tapfd = 3, vport_sockfd = 4,
         vswitch_addr = \<lparr>sin_family = 2, sin_port = 0x901F, sin_addr = 0x0100007F\<rparr>\<rparr>
        (\<lambda>_. 0)
        [\<lparr>datagram = Some (replicate 1600 0x55,
                            \<lparr>sin_family = 2, sin_port = 0x901F, sin_addr = 0x0100007F\<rparr>),
          write_ret = 1518\<rparr>])))
     = [replicate 1518 0x55]
   \<and> length (replicate 1518 (0x55 :: byte)) \<le> 1518"
  using forwarded_frames_at_most_1518
    [where nd = False
       and vp = "\<lparr>tapfd = 3, vport_sockfd = 4,
         vswitch_addr = \<lparr>sin_family = 2, sin_port = 0x901F, sin_addr = 0x0100007F\<rparr>\<rparr>"
       and stack = "\<lambda>_. 0" and stack' = "\<lambda>_. 0"
       and ups = "[\<lparr>tap_frame = Some (replicate 1600 0x55), sendto_ret = 1518\<rparr>]"
       and downs = "[\<lparr>datagram = Some (replicate 1600 0x55,
                            \<lparr>sin_family = 2, sin_port = 0x901F, sin_addr = 0x0100007F\<rparr>),
          write_ret = 1518\<rparr>]"]
  by (simp add: forward_ether_data_to_vswitch_def forward_ether_data_to_tap_def
      forward_to_vswitch_iter_def forward_to_tap_iter_def read_c_def recvfrom_c_def
      assert_c_def ETHER_MAX_LEN_def Let_def)

subsection \<open>The two outcomes of the interface request\<close>

text \<open>
  Claim C9. Once \<^verbatim>\<open>open\<close> has succeeded in \<^verbatim>\<open>tap_alloc\<close>: if the \<^verbatim>\<open>TUNSETIFF\<close> request
  fails, the descriptor is closed, the negative value of the request is returned and the
  caller's buffer is left as it was; if it succeeds, the caller's buffer receives the
  name the kernel assigned and the non-negative descriptor is returned.
\<close>

theorem tap_alloc_ioctl_outcome:
  assumes "0 \<le> open_ret env"
  shows "(ioctl_ret env < 0 \<longrightarrow>
            tap_alloc env dev =
              (ioctl_ret env, dev,
               [Sys_open ''/dev/net/tun'',
                Sys_ioctl_TUNSETIFF (open_ret env)
                  \<lparr>ifr_name = (if dev \<noteq> [] then take IFNAMSIZ dev else []),
                   ifr_flags = IFF_TAP OR IFF_NO_PI\<rparr>,
                Sys_close (open_ret env)]))
       \<and> (0 \<le> ioctl_ret env \<longrightarrow>
            tap_alloc env dev =
              (open_ret env, ioctl_name env,
               [Sys_open ''/dev/net/tun'',
                Sys_ioctl_TUNSETIFF (open_ret env)
                  \<lparr>ifr_name = (if dev \<noteq> [] then take IFNAMSIZ dev else []),
                   ifr_flags = IFF_TAP OR IFF_NO_PI\<rparr>]))"
  using assms by (simp add: tap_alloc_def ioctl_TUNSETIFF_def strncpy_def Let_def)

theorem tap_alloc_ioctl_outcome_witness:
  "(0::int) \<le> 3 \<and> (- 1::int) < 0 \<and> (0::int) \<le> 0
   \<and> tap_alloc \<lparr>open_ret = 3, ioctl_ret = - 1, ioctl_name = ''tap0'', socket_ret = 4\<rparr> ''tapyuan''
       = (- 1, ''tapyuan'',
          [Sys_open ''/dev/net/tun'',
           Sys_ioctl_TUNSETIFF 3 \<lparr>ifr_name = ''tapyuan'', ifr_flags = 0x1002\<rparr>,
           Sys_close 3])
   \<and> tap_alloc \<lparr>open_ret = 3, ioctl_ret = 0, ioctl_name = ''tapyuan'', socket_ret = 4\<rparr> ''tapyuan''
       = (3, ''tapyuan'',
          [Sys_open ''/dev/net/tun'',
           Sys_ioctl_TUNSETIFF 3 \<lparr>ifr_name = ''tapyuan'', ifr_flags = 0x1002\<rparr>])"
  using tap_alloc_ioctl_outcome
          [of "\<lparr>open_ret = 3, ioctl_ret = - 1, ioctl_name = ''tap0'', socket_ret = 4\<rparr>" "''tapyuan''"]
        tap_alloc_ioctl_outcome
          [of "\<lparr>open_ret = 3, ioctl_ret = 0, ioctl_name = ''tapyuan'', socket_ret = 4\<rparr>" "''tapyuan''"]
  by (simp add: IFNAMSIZ_def IFF_TAP_def IFF_NO_PI_def)

subsection \<open>The structure after a successful setup\<close>

text \<open>
  Claim C10. When \<^verbatim>\<open>vport_init\<close> returns, the structure holds the family \<^verbatim>\<open>AF_INET\<close>, the
  port \<^verbatim>\<open>htons(server_port)\<close>, the address \<^verbatim>\<open>inet_pton\<close> produced from the text, the
  non-negative descriptor \<^verbatim>\<open>tap_alloc\<close> returned and the non-negative descriptor
  \<^verbatim>\<open>socket\<close> returned.
\<close>

theorem vport_init_returns_populated:
  assumes "vport_init env pton ip prt = (Return vp, evs)"
  shows "sin_family (vswitch_addr vp) = AF_INET
       \<and> sin_port (vswitch_addr vp) = htons (word_of_int prt)
       \<and> inet_pton pton AF_INET ip 0 = (1, sin_addr (vswitch_addr vp))
       \<and> tapfd vp = fst (tap_alloc env ''tapyuan'') \<and> 0 \<le> tapfd vp
       \<and> vport_sockfd vp = socket_ret env \<and> 0 \<le> vport_sockfd vp"
  using assms
  by (auto simp add: vport_init_def ERROR_PRINT_THEN_EXIT_def inet_pton_def Let_def
      split: prod.splits if_splits option.splits)

theorem vport_init_returns_populated_witness:
  "vport_init \<lparr>open_ret = 3, ioctl_ret = 0, ioctl_name = ''tapyuan'', socket_ret = 4\<rparr>
        (\<lambda>s. if s = ''127.0.0.1'' then Some 0x0100007F else None) ''127.0.0.1'' 8080
      = (Return \<lparr>tapfd = 3, vport_sockfd = 4,
                 vswitch_addr = \<lparr>sin_family = 2, sin_port = 0x901F, sin_addr = 0x0100007F\<rparr>\<rparr>,
         [Sys_open ''/dev/net/tun'',
          Sys_ioctl_TUNSETIFF 3 \<lparr>ifr_name = ''tapyuan'', ifr_flags = 0x1002\<rparr>,
          Sys_socket 2 2 0, Stdout (Init_banner ''tapyuan'' ''127.0.0.1'' 8080)])
   \<and> AF_INET = 2 \<and> htons (word_of_int 8080) = 0x901F
   \<and> inet_pton (\<lambda>s. if s = ''127.0.0.1'' then Some 0x0100007F else None) AF_INET ''127.0.0.1'' 0
       = (1, 0x0100007F)
   \<and> fst (tap_alloc \<lparr>open_ret = 3, ioctl_ret = 0, ioctl_name = ''tapyuan'', socket_ret = 4\<rparr>
            ''tapyuan'') = 3"
  using vport_init_returns_populated
    [where env = "\<lparr>open_ret = 3, ioctl_ret = 0, ioctl_name = ''tapyuan'', socket_ret = 4\<rparr>"
       and pton = "\<lambda>s. if s = ''127.0.0.1'' then Some 0x0100007F else None"
       and ip = "''127.0.0.1''" and prt = 8080
       and vp = "\<lparr>tapfd = 3, vport_sockfd = 4,
                 vswitch_addr = \<lparr>sin_family = 2, sin_port = 0x901F, sin_addr = 0x0100007F\<rparr>\<rparr>"
       and evs = "[Sys_open ''/dev/net/tun'',
          Sys_ioctl_TUNSETIFF 3 \<lparr>ifr_name = ''tapyuan'', ifr_flags = 0x1002\<rparr>,
          Sys_socket 2 2 0, Stdout (Init_banner ''tapyuan'' ''127.0.0.1'' 8080)]"]
  by (simp add: vport_init_def ERROR_PRINT_THEN_EXIT_def inet_pton_def htons_def
      tap_alloc_def ioctl_TUNSETIFF_def strncpy_def IFNAMSIZ_def IFF_TAP_def
      IFF_NO_PI_def AF_INET_def SOCK_DGRAM_def Let_def)

end
